theory Spec2Isabelle
  imports Complex_Main "HOL-Library.Log_Nat"
begin

section \<open>Python values used by Tarea4pilares.py\<close>

text \<open>
  The exceptions the modelled code can raise. A function that may raise returns
  \<open>error + 'a\<close>, with \<open>Inl\<close> for the exception.
\<close>

datatype error = TypeError | IndexError | StatisticsError | ZeroDivisionError | OverflowError

definition bind_e :: "error + 'a \<Rightarrow> ('a \<Rightarrow> error + 'b) \<Rightarrow> error + 'b" where
  "bind_e r f = (case r of Inl e \<Rightarrow> Inl e | Inr x \<Rightarrow> f x)"

text \<open>
  A Python \<open>float\<close> is an IEEE 754 double: a finite value, one of the two infinities,
  or NaN. A finite value is the real it denotes (zero carries no sign here). The special
  values follow IEEE 754 as Python implements it: every comparison with NaN is false,
  and \<open>inf + (-inf)\<close> is NaN.
\<close>

datatype pyfloat = Fin real | PInf | NInf | NaN

text \<open>Rounding a real to the nearest integer, ties to the even one.\<close>

definition redondeo_par :: "real \<Rightarrow> int" where
  "redondeo_par x =
     (let q = \<lfloor>x\<rfloor>; f = x - of_int q
      in if f < 1 / 2 then q
         else if f > 1 / 2 then q + 1
         else if even q then q else q + 1)"

text \<open>
  Rounding a real to the nearest double, ties to even, as every arithmetic operation on
  floats does with its exact result. The doubles are the \<open>m * 2^e\<close> with
  \<open>|m| < 2^53\<close> and \<open>-1074 <= e <= 971\<close>. With \<open>t = x * 2^1074\<close>, the unit in the last
  place of \<open>x\<close> is \<open>2^k / 2^1074\<close>, where \<open>k\<close> is the number of bits of the integer part
  of \<open>|t|\<close> beyond 53 (none in the subnormal range). A result of magnitude \<open>2^1024\<close> or
  more is out of range and becomes an infinity.
\<close>

definition redondear :: "real \<Rightarrow> pyfloat" where
  "redondear x =
     (let t = x * 2 ^ 1074;
          k = nat (bitlen \<lfloor>\<bar>t\<bar>\<rfloor> - 53);
          m = redondeo_par (t / 2 ^ k);
          y = real_of_int m * 2 ^ k / 2 ^ 1074
      in if \<bar>y\<bar> \<ge> 2 ^ 1024 then (if 0 < x then PInf else NInf) else Fin y)"

fun es_finito :: "pyfloat \<Rightarrow> bool" where
  "es_finito (Fin x) = True"
| "es_finito PInf = False"
| "es_finito NInf = False"
| "es_finito NaN = False"

fun es_nan :: "pyfloat \<Rightarrow> bool" where
  "es_nan NaN = True"
| "es_nan (Fin x) = False"
| "es_nan PInf = False"
| "es_nan NInf = False"

fun valor_real :: "pyfloat \<Rightarrow> real" where
  "valor_real (Fin x) = x"
| "valor_real PInf = 0"
| "valor_real NInf = 0"
| "valor_real NaN = 0"

text \<open>\<open>a + b\<close> on floats: the exact sum, rounded.\<close>

fun fadd :: "pyfloat \<Rightarrow> pyfloat \<Rightarrow> pyfloat" where
  "fadd (Fin a) (Fin b) = redondear (a + b)"
| "fadd (Fin a) PInf = PInf"
| "fadd (Fin a) NInf = NInf"
| "fadd (Fin a) NaN = NaN"
| "fadd PInf (Fin b) = PInf"
| "fadd PInf PInf = PInf"
| "fadd PInf NInf = NaN"
| "fadd PInf NaN = NaN"
| "fadd NInf (Fin b) = NInf"
| "fadd NInf PInf = NaN"
| "fadd NInf NInf = NInf"
| "fadd NInf NaN = NaN"
| "fadd NaN b = NaN"

text \<open>\<open>a <= b\<close>, \<open>a < b\<close>, \<open>a >= b\<close> and \<open>a > b\<close> on floats.\<close>

fun fle :: "pyfloat \<Rightarrow> pyfloat \<Rightarrow> bool" where
  "fle (Fin a) (Fin b) = (a \<le> b)"
| "fle (Fin a) PInf = True"
| "fle (Fin a) NInf = False"
| "fle (Fin a) NaN = False"
| "fle PInf (Fin b) = False"
| "fle PInf PInf = True"
| "fle PInf NInf = False"
| "fle PInf NaN = False"
| "fle NInf (Fin b) = True"
| "fle NInf PInf = True"
| "fle NInf NInf = True"
| "fle NInf NaN = False"
| "fle NaN b = False"

fun flt :: "pyfloat \<Rightarrow> pyfloat \<Rightarrow> bool" where
  "flt (Fin a) (Fin b) = (a < b)"
| "flt (Fin a) PInf = True"
| "flt (Fin a) NInf = False"
| "flt (Fin a) NaN = False"
| "flt PInf b = False"
| "flt NInf (Fin b) = True"
| "flt NInf PInf = True"
| "flt NInf NInf = False"
| "flt NInf NaN = False"
| "flt NaN b = False"

definition fge :: "pyfloat \<Rightarrow> pyfloat \<Rightarrow> bool" where
  "fge a b = fle b a"

definition fgt :: "pyfloat \<Rightarrow> pyfloat \<Rightarrow> bool" where
  "fgt a b = flt b a"

text \<open>\<open>abs(a)\<close>.\<close>

fun fabs :: "pyfloat \<Rightarrow> pyfloat" where
  "fabs (Fin a) = Fin \<bar>a\<bar>"
| "fabs PInf = PInf"
| "fabs NInf = PInf"
| "fabs NaN = NaN"

text \<open>
  \<open>a / n\<close> for a float \<open>a\<close> and an \<open>int\<close> \<open>n\<close> that is a length, so never negative:
  ZeroDivisionError when \<open>n\<close> is 0, and the exact quotient, rounded, otherwise.
\<close>

fun fdiv_len :: "pyfloat \<Rightarrow> nat \<Rightarrow> error + pyfloat" where
  "fdiv_len a 0 = Inl ZeroDivisionError"
| "fdiv_len (Fin a) (Suc n) = Inr (redondear (a / real (Suc n)))"
| "fdiv_len PInf (Suc n) = Inr PInf"
| "fdiv_len NInf (Suc n) = Inr NInf"
| "fdiv_len NaN (Suc n) = Inr NaN"

text \<open>
  \<open>x ** 2\<close>: the exact square, rounded; Python raises OverflowError when the square
  of a finite float is out of range.
\<close>

fun fpow2 :: "pyfloat \<Rightarrow> error + pyfloat" where
  "fpow2 (Fin a) =
     (case redondear (a * a) of Fin y \<Rightarrow> Inr (Fin y) | _ \<Rightarrow> Inl OverflowError)"
| "fpow2 PInf = Inr PInf"
| "fpow2 NInf = Inr PInf"
| "fpow2 NaN = Inr NaN"

text \<open>
  \<open>x ** 0.5\<close>, for an \<open>x\<close> that is not negative (the only use is on a mean of
  squares; on a negative float Python would give a complex number): the square root,
  rounded.
\<close>

fun fpow_half :: "pyfloat \<Rightarrow> pyfloat" where
  "fpow_half (Fin a) = redondear (sqrt a)"
| "fpow_half PInf = PInf"
| "fpow_half NInf = PInf"
| "fpow_half NaN = NaN"

text \<open>
  The built-in \<open>sum\<close> of floats: additions from the left, starting at 0, each one
  rounded. (From Python 3.12 the additions carry a compensation term; the result is the
  same wherever every partial sum is exact.)
\<close>

definition suma :: "pyfloat list \<Rightarrow> pyfloat" where
  "suma xs = foldl fadd (Fin 0) xs"

text \<open>
  \<open>statistics.mean\<close>: StatisticsError on no data. When some value is not finite, the
  library drops the finite ones, adds the others as floats from the left starting at 0,
  and divides that float by the count. Otherwise it adds the values exactly, as
  fractions, divides the exact total by the count and converts the exact quotient to a
  float, which rounds it once. (The exact mean of doubles lies between the least and the
  greatest of them, so this conversion stays in range.)
\<close>

definition mean :: "pyfloat list \<Rightarrow> error + pyfloat" where
  "mean xs =
     (if length xs < 1 then Inl StatisticsError
      else let nf = filter (\<lambda>x. \<not> es_finito x) xs
           in if nf \<noteq> [] then fdiv_len (foldl fadd (Fin 0) nf) (length xs)
              else Inr (redondear (sum_list (map valor_real xs) / real (length xs))))"

text \<open>\<open>list.pop(0)\<close>: IndexError on an empty list.\<close>

fun pop0 :: "'a list \<Rightarrow> error + ('a \<times> 'a list)" where
  "pop0 [] = Inl IndexError"
| "pop0 (x # xs) = Inr (x, xs)"

section \<open>Sensors\<close>

text \<open>
  The three concrete subclasses of the abstract dataclass \<open>Sensor\<close>, each with the
  fields it adds, in the order of the source.
\<close>

datatype variante =
    SensorTemperatura (umbral: pyfloat)
  | SensorVibracion (rms_umbral: pyfloat)
  | SensorPresion (presion_max: pyfloat) (presion_min: pyfloat)

record Sensor =
  id_sensor :: string
  ventana :: int
  calibracion :: pyfloat
  buffer :: "pyfloat list"
  variante :: variante

text \<open>\<open>Sensor.leer\<close>: the sensor after the call.\<close>

definition leer :: "pyfloat \<Rightarrow> Sensor \<Rightarrow> error + Sensor" where
  "leer valor s =
     (let v = fadd valor (calibracion s);
          b = buffer s @ [v]
      in if int (length b) > ventana s
         then bind_e (pop0 b) (\<lambda>(x, b'). Inr (s\<lparr>buffer := b'\<rparr>))
         else Inr (s\<lparr>buffer := b\<rparr>))"

text \<open>Feeding a sequence of raw readings, one \<open>leer\<close> call each, in order.\<close>

fun leer_todos :: "pyfloat list \<Rightarrow> Sensor \<Rightarrow> error + Sensor" where
  "leer_todos [] s = Inr s"
| "leer_todos (valor # valores) s = bind_e (leer valor s) (leer_todos valores)"

text \<open>The property \<open>Sensor.promedio\<close>.\<close>

definition promedio :: "Sensor \<Rightarrow> error + pyfloat" where
  "promedio s = (if buffer s \<noteq> [] then mean (buffer s) else Inr (Fin 0))"

text \<open>\<open>en_alerta\<close>, dispatched on the subclass.\<close>

definition en_alerta :: "Sensor \<Rightarrow> error + bool" where
  "en_alerta s =
     (case variante s of
        SensorTemperatura u \<Rightarrow> bind_e (promedio s) (\<lambda>p. Inr (fge p u))
      | SensorVibracion u \<Rightarrow> bind_e (promedio s) (\<lambda>p. Inr (fge (fabs p) u))
      | SensorPresion pmax pmin \<Rightarrow>
          bind_e (promedio s) (\<lambda>p. Inr (\<not> (fle pmin p \<and> fle p pmax))))"

text \<open>\<open>SensorVibracion.calcular_rms\<close>.\<close>

fun cuadrados :: "pyfloat list \<Rightarrow> error + pyfloat list" where
  "cuadrados [] = Inr []"
| "cuadrados (x # xs) =
     bind_e (fpow2 x) (\<lambda>y. bind_e (cuadrados xs) (\<lambda>ys. Inr (y # ys)))"

definition calcular_rms :: "Sensor \<Rightarrow> error + pyfloat" where
  "calcular_rms s =
     (if buffer s \<noteq> []
      then bind_e (cuadrados (buffer s)) (\<lambda>qs.
           bind_e (fdiv_len (suma qs) (length (buffer s))) (\<lambda>m. Inr (fpow_half m)))
      else Inr (Fin 0))"

section \<open>Alerts and notifiers\<close>

datatype TipoNotificacion = EMAIL | WEBHOOK | SMS

datatype NivelAlerta = NORMAL | ADVERTENCIA | CRITICO

text \<open>
  The three notifier classes, each holding its destination. \<open>enviar\<close> prints one line;
  the line is what the call adds to the standard output.
\<close>

datatype Notificador =
    NotificadorEmail string
  | NotificadorWebhook string
  | NotificadorSMS string

fun enviar :: "Notificador \<Rightarrow> string \<Rightarrow> string" where
  "enviar (NotificadorEmail destinatario) mensaje =
     ''[EMAIL a '' @ destinatario @ ''] '' @ mensaje"
| "enviar (NotificadorWebhook url) mensaje =
     ''[WEBHOOK '' @ url @ ''] '' @ mensaje"
| "enviar (NotificadorSMS telefono) mensaje =
     ''[SMS a '' @ telefono @ ''] '' @ mensaje"

text \<open>
  The class \<open>Alerta\<close> is a plain class: it has no \<open>@dataclass\<close> decorator and defines
  no \<open>__init__\<close>. Its body annotates \<open>sensor_id\<close>, \<open>mensaje\<close> and \<open>hora\<close> without a
  value and sets the class attribute \<open>nivel\<close> to NORMAL. An instance therefore has no
  attribute of its own (\<open>None\<close> below) and reads \<open>nivel\<close> from the class.
\<close>

record Alerta =
  sensor_id :: "string option"
  mensaje :: "string option"
  hora :: "nat option"
  nivel :: NivelAlerta

definition es_critica :: "Alerta \<Rightarrow> bool" where
  "es_critica a = (nivel a = CRITICO)"

text \<open>
  The call \<open>Alerta(...)\<close> with its keyword arguments. The constructor is the one
  inherited from \<open>object\<close>, which takes no argument: any argument is a TypeError
  (\<open>Alerta() takes no arguments\<close>).
\<close>

datatype argumento = ArgStr string | ArgHora nat | ArgNivel NivelAlerta

definition Alerta_call :: "(string \<times> argumento) list \<Rightarrow> error + Alerta" where
  "Alerta_call kwargs =
     (if kwargs = []
      then Inr \<lparr>sensor_id = None, mensaje = None, hora = None, nivel = NORMAL\<rparr>
      else Inl TypeError)"

section \<open>Formatting\<close>

text \<open>
  The format specification \<open>.2f\<close>: the value rounded to two decimals, ties to even,
  with a minus sign for a negative value.
\<close>

definition digito :: "nat \<Rightarrow> char" where
  "digito d = ''0123456789'' ! d"

function digitos :: "nat \<Rightarrow> string" where
  "digitos n = (if n < 10 then [digito n] else digitos (n div 10) @ [digito (n mod 10)])"
  by pat_completeness auto
termination
  by (relation "measure (\<lambda>n. n)") auto

fun formato_2f :: "pyfloat \<Rightarrow> string" where
  "formato_2f (Fin x) =
     (let n = nat (redondeo_par (\<bar>x\<bar> * 100))
      in (if x < 0 then ''-'' else []) @ digitos (n div 100) @ ''.''
         @ [digito (n mod 100 div 10), digito (n mod 10)])"
| "formato_2f PInf = ''inf''"
| "formato_2f NInf = ''-inf''"
| "formato_2f NaN = ''nan''"

section \<open>The alert manager\<close>

record GestorAlertas =
  sensores :: "Sensor list"
  notificadores :: "Notificador list"
  historial :: "Alerta list"

text \<open>
  The state \<open>evaluar_y_notificar\<close> works on: the manager and the lines printed so far.
\<close>

record mundo =
  gestor :: GestorAlertas
  salida :: "string list"

text \<open>The inner loop: \<open>for n in self._notificadores: n.enviar(msg)\<close>.\<close>

fun enviar_todos :: "Notificador list \<Rightarrow> string \<Rightarrow> string list \<Rightarrow> string list" where
  "enviar_todos [] msg lineas = lineas"
| "enviar_todos (n # ns) msg lineas = enviar_todos ns msg (lineas @ [enviar n msg])"

text \<open>
  The message of an alert, for a sensor and its average:
  \<open>f"ALERTA: Sensor {s.id} en umbral (avg={s.promedio:.2f})"\<close>.
\<close>

definition mensaje_alerta :: "Sensor \<Rightarrow> pyfloat \<Rightarrow> string" where
  "mensaje_alerta s p =
     ''ALERTA: Sensor '' @ id_sensor s @ '' en umbral (avg='' @ formato_2f p @ '')''"

text \<open>
  The body of the outer loop for one sensor, at the clock reading \<open>ahora\<close>. An exception
  leaves the state as it is when it is raised, so the result is the exception, if any,
  and the state.
\<close>

definition evaluar_sensor :: "nat \<Rightarrow> Sensor \<Rightarrow> mundo \<Rightarrow> error option \<times> mundo" where
  "evaluar_sensor ahora s w =
     (case en_alerta s of
        Inl e \<Rightarrow> (Some e, w)
      | Inr False \<Rightarrow> (None, w)
      | Inr True \<Rightarrow>
          (case promedio s of
             Inl e \<Rightarrow> (Some e, w)
           | Inr p \<Rightarrow>
               let msg = mensaje_alerta s p
               in (case Alerta_call [(''sensor_id'', ArgStr (id_sensor s)),
                                     (''mensaje'', ArgStr msg),
                                     (''hora'', ArgHora ahora),
                                     (''nivel'', ArgNivel CRITICO)] of
                     Inl e \<Rightarrow> (Some e, w)
                   | Inr alerta \<Rightarrow>
                       (None,
                        w\<lparr>gestor := (gestor w)\<lparr>historial := historial (gestor w) @ [alerta]\<rparr>,
                          salida := enviar_todos (notificadores (gestor w)) msg (salida w)\<rparr>))))"

text \<open>The outer loop: \<open>for s in self._sensores\<close>, stopped by the first exception.\<close>

fun evaluar_bucle :: "nat \<Rightarrow> Sensor list \<Rightarrow> mundo \<Rightarrow> error option \<times> mundo" where
  "evaluar_bucle ahora [] w = (None, w)"
| "evaluar_bucle ahora (s # ss) w =
     (case evaluar_sensor ahora s w of
        (Some e, w') \<Rightarrow> (Some e, w')
      | (None, w') \<Rightarrow> evaluar_bucle ahora ss w')"

definition evaluar_y_notificar :: "nat \<Rightarrow> mundo \<Rightarrow> error option \<times> mundo" where
  "evaluar_y_notificar ahora w = evaluar_bucle ahora (sensores (gestor w)) w"

text \<open>
  A caller running one evaluation cycle after another, each at its own clock reading,
  going on after an exception (as a caller that catches it does). The result lists what
  each call raised.
\<close>

fun ciclos :: "nat list \<Rightarrow> mundo \<Rightarrow> error option list \<times> mundo" where
  "ciclos [] w = ([], w)"
| "ciclos (t # ts) w =
     (case evaluar_y_notificar t w of
        (r, w') \<Rightarrow> (case ciclos ts w' of (rs, w'') \<Rightarrow> (r # rs, w'')))"

section \<open>Reference notions and example states\<close>

text \<open>The last \<open>n\<close> elements of a list, in the list's order.\<close>

definition ultimos :: "nat \<Rightarrow> 'a list \<Rightarrow> 'a list" where
  "ultimos n xs = drop (length xs - n) xs"

text \<open>
  Sensors as their constructors build them from an identifier alone: window 5,
  calibration 0.0, an empty buffer and the default thresholds of the subclass.
\<close>

definition sensor_T1 :: Sensor where
  "sensor_T1 = \<lparr>id_sensor = ''T1'', ventana = 5, calibracion = Fin 0, buffer = [],
                 variante = SensorTemperatura (Fin 80)\<rparr>"

definition sensor_V1 :: Sensor where
  "sensor_V1 = \<lparr>id_sensor = ''V1'', ventana = 5, calibracion = Fin 0, buffer = [],
                 variante = SensorVibracion (Fin (5 / 2))\<rparr>"

definition sensor_P1 :: Sensor where
  "sensor_P1 = \<lparr>id_sensor = ''P1'', ventana = 5, calibracion = Fin 0, buffer = [],
                 variante = SensorPresion (Fin 100) (Fin 1)\<rparr>"

text \<open>
  A manager as \<open>GestorAlertas(sensores, notificadores)\<close> builds it, with an empty
  history, and nothing printed yet.
\<close>

definition mundo_de :: "Sensor list \<Rightarrow> Notificador list \<Rightarrow> mundo" where
  "mundo_de ss ns =
     \<lparr>gestor = \<lparr>sensores = ss, notificadores = ns, historial = []\<rparr>, salida = []\<rparr>"

text \<open>
  The manager of one temperature sensor \<open>T1\<close> holding the readings 85, 85, 85, with
  two notifiers.
\<close>

definition mundo_T1 :: mundo where
  "mundo_T1 =
     mundo_de [sensor_T1\<lparr>buffer := [Fin 85, Fin 85, Fin 85]\<rparr>]
       [NotificadorEmail ''ops@planta.mx'', NotificadorSMS ''5550100'']"

text \<open>A temperature sensor with window 2 and calibration offset 5.\<close>

definition sensor_W2 :: Sensor where
  "sensor_W2 = \<lparr>id_sensor = ''T2'', ventana = 2, calibracion = Fin 5, buffer = [],
                 variante = SensorTemperatura (Fin 80)\<rparr>"

text \<open>The vibration sensor after the readings 3, -3, 3, -3.\<close>

definition sensor_V1_alterno :: Sensor where
  "sensor_V1_alterno = sensor_V1\<lparr>buffer := [Fin 3, Fin (- 3), Fin 3, Fin (- 3)]\<rparr>"

text \<open>A manager of one pressure sensor whose average, 150, is above its maximum.\<close>

definition mundo_P1 :: mundo where
  "mundo_P1 =
     mundo_de [sensor_P1\<lparr>buffer := [Fin 150]\<rparr>]
       [NotificadorWebhook ''http://planta.mx/hook'']"

text \<open>A manager of two sensors, neither in alert.\<close>

definition mundo_T1_frio :: mundo where
  "mundo_T1_frio =
     mundo_de [sensor_T1\<lparr>buffer := [Fin 70, Fin 71]\<rparr>, sensor_P1\<lparr>buffer := [Fin 50]\<rparr>]
       [NotificadorEmail ''ops@planta.mx'']"

section \<open>Properties of the operations\<close>

subsection \<open>Exceptions as values\<close>

lemma bind_e_Inr [simp]: "bind_e (Inr x) f = f x"
  by (simp add: bind_e_def)

lemma bind_e_Inl [simp]: "bind_e (Inl e) f = Inl e"
  by (simp add: bind_e_def)

subsection \<open>Rounding\<close>

lemma redondeo_par_of_int: "redondeo_par (of_int n) = n"
  by (simp add: redondeo_par_def)

text \<open>Every double is rounded to itself.\<close>

lemma redondear_double:
  assumes m: "\<bar>m\<bar> < 2 ^ 53" and i: "i \<le> 971" and j: "j \<le> 1074"
  shows "redondear (of_int m * 2 ^ i / 2 ^ j) = Fin (of_int m * 2 ^ i / 2 ^ j)"
proof -
  define e where "e = 1074 - j + i"
  define x :: real where "x = of_int m * 2 ^ i / 2 ^ j"
  have pj: "(2::real) ^ 1074 = 2 ^ (1074 - j) * 2 ^ j"
    using j by (simp del: power_numeral flip: power_add)
  have t: "x * 2 ^ 1074 = of_int (m * 2 ^ e)"
    unfolding x_def e_def pj by (simp add: power_add del: power_numeral)
  have abs_t: "\<bar>x * 2 ^ 1074\<bar> = of_int (\<bar>m\<bar> * 2 ^ e)"
    unfolding t by (simp add: abs_mult del: power_numeral)
  have "\<bar>m\<bar> * 2 ^ e < 2 ^ 53 * 2 ^ e" using m by (simp del: power_numeral)
  also have "(2::int) ^ 53 * 2 ^ e = 2 ^ (53 + e)" by (simp only: power_add)
  finally have "\<bar>m\<bar> * 2 ^ e < 2 ^ nat (int (53 + e))" by (simp only: nat_int)
  then have "bitlen (\<bar>m\<bar> * 2 ^ e) \<le> int (53 + e)"
    by (simp only: bitlen_le_iff_power) simp
  define k where "k = nat (bitlen (\<bar>m\<bar> * 2 ^ e) - 53)"
  with \<open>bitlen (\<bar>m\<bar> * 2 ^ e) \<le> int (53 + e)\<close> have ke: "k \<le> e" by simp
  then have pe: "(2::int) ^ e = 2 ^ (e - k) * 2 ^ k" by (simp flip: power_add)
  have q: "x * 2 ^ 1074 / 2 ^ k = of_int (m * 2 ^ (e - k))"
    unfolding t pe by simp
  have y: "real_of_int (m * 2 ^ (e - k)) * 2 ^ k / 2 ^ 1074 = x"
  proof -
    have "real_of_int (m * 2 ^ (e - k)) * 2 ^ k = of_int (m * 2 ^ e)"
      unfolding pe by simp
    also have "\<dots> = x * 2 ^ 1074" by (simp only: t)
    finally show ?thesis by (simp del: power_numeral)
  qed
  have "\<bar>x\<bar> = of_int \<bar>m\<bar> * 2 ^ i / 2 ^ j" by (simp add: x_def abs_mult)
  also have "\<dots> \<le> of_int \<bar>m\<bar> * 2 ^ i"
  proof -
    have "(1::real) \<le> 2 ^ j" by (rule one_le_power) simp
    then have "real_of_int \<bar>m\<bar> * 2 ^ i / 2 ^ j \<le> real_of_int \<bar>m\<bar> * 2 ^ i / 1"
      by (intro divide_left_mono) simp_all
    then show ?thesis by simp
  qed
  also have "\<dots> < 2 ^ 53 * 2 ^ 971"
  proof -
    have "real_of_int \<bar>m\<bar> < real_of_int (2 ^ 53)" using m by (simp only: of_int_less_iff)
    then have "real_of_int \<bar>m\<bar> < 2 ^ 53" by (simp del: power_numeral)
    moreover have "(2::real) ^ i \<le> 2 ^ 971" using i by (intro power_increasing) simp_all
    ultimately show ?thesis by (intro mult_less_le_imp_less) (simp_all del: power_numeral)
  qed
  also have "(2::real) ^ 53 * 2 ^ 971 = 2 ^ 1024" by (simp del: power_numeral flip: power_add)
  finally have bound: "\<not> 2 ^ 1024 \<le> \<bar>x\<bar>" by (simp del: power_numeral)
  have "redondear x = Fin x"
    unfolding redondear_def Let_def abs_t floor_of_int k_def [symmetric] q redondeo_par_of_int y
    using bound by (simp only: if_False)
  then show ?thesis by (simp only: x_def)
qed


lemma redondear_of_int: "\<bar>m\<bar> < 2 ^ 53 \<Longrightarrow> redondear (of_int m) = Fin (of_int m)"
  using redondear_double [of m 0 0] by simp

lemma redondear_medio: "\<bar>m\<bar> < 2 ^ 53 \<Longrightarrow> redondear (of_int m / 2) = Fin (of_int m / 2)"
  using redondear_double [of m 0 1] by simp

lemma redondear_numeral [simp]:
  "numeral k < (2::int) ^ 53 \<Longrightarrow> redondear (numeral k) = Fin (numeral k)"
  using redondear_of_int [of "numeral k"] by simp

lemma redondear_neg_numeral [simp]:
  "numeral k < (2::int) ^ 53 \<Longrightarrow> redondear (- numeral k) = Fin (- numeral k)"
  using redondear_of_int [of "- numeral k"] by simp

lemma redondear_0 [simp]: "redondear 0 = Fin 0"
  using redondear_of_int [of 0] by simp

lemma redondear_1 [simp]: "redondear 1 = Fin 1"
  using redondear_of_int [of 1] by simp

lemma redondear_numeral_medio [simp]:
  "numeral k < (2::int) ^ 53 \<Longrightarrow> redondear (numeral k / 2) = Fin (numeral k / 2)"
  using redondear_medio [of "numeral k"] by simp

lemma redondear_un_medio [simp]: "redondear (1 / 2) = Fin (1 / 2)"
  using redondear_medio [of 1] by simp

text \<open>Rounding a real whose binade is known: \<open>2^k / 2^1074\<close> is its unit in the last place.\<close>

lemma redondear_normal:
  assumes "2 ^ (52 + k) \<le> \<bar>x\<bar> * 2 ^ 1074" and "\<bar>x\<bar> * 2 ^ 1074 < 2 ^ (53 + k)"
  shows "redondear x =
           (if \<bar>real_of_int (redondeo_par (x * 2 ^ 1074 / 2 ^ k)) * 2 ^ k / 2 ^ 1074\<bar> \<ge> 2 ^ 1024
            then (if 0 < x then PInf else NInf)
            else Fin (real_of_int (redondeo_par (x * 2 ^ 1074 / 2 ^ k)) * 2 ^ k / 2 ^ 1074))"
proof -
  have a: "\<bar>x * 2 ^ 1074\<bar> = \<bar>x\<bar> * 2 ^ 1074" by (simp add: abs_mult del: power_numeral)
  have "(2::int) ^ (52 + k) \<le> \<lfloor>\<bar>x\<bar> * 2 ^ 1074\<rfloor>"
    using assms(1) by (simp add: le_floor_iff del: power_numeral)
  then have "(2::int) ^ (nat (int (53 + k)) - 1) \<le> \<lfloor>\<bar>x\<bar> * 2 ^ 1074\<rfloor>"
    by (simp only: nat_int) simp
  then have 1: "int (53 + k) \<le> bitlen \<lfloor>\<bar>x\<bar> * 2 ^ 1074\<rfloor>"
    by (simp only: bitlen_ge_iff_power) simp
  have "\<lfloor>\<bar>x\<bar> * 2 ^ 1074\<rfloor> < (2::int) ^ (53 + k)"
    using assms(2) by (simp add: floor_less_iff del: power_numeral)
  then have "\<lfloor>\<bar>x\<bar> * 2 ^ 1074\<rfloor> < (2::int) ^ nat (int (53 + k))"
    by (simp only: nat_int)
  then have 2: "bitlen \<lfloor>\<bar>x\<bar> * 2 ^ 1074\<rfloor> \<le> int (53 + k)"
    by (simp only: bitlen_le_iff_power) simp
  from 1 2 have kk: "nat (bitlen \<lfloor>\<bar>x\<bar> * 2 ^ 1074\<rfloor> - 53) = k" by simp
  show ?thesis unfolding redondear_def Let_def a kk ..
qed

lemma redondeo_par_cotas:
  assumes "real_of_int a \<le> x" and "x \<le> real_of_int b"
  shows "a \<le> redondeo_par x \<and> redondeo_par x \<le> b"
proof -
  have f: "a \<le> \<lfloor>x\<rfloor>" using assms(1) by (simp add: le_floor_iff)
  have c: "\<lfloor>x\<rfloor> \<le> b" using assms(2) by (simp add: floor_le_iff)
  have "\<lfloor>x\<rfloor> + 1 \<le> b" if "x - of_int \<lfloor>x\<rfloor> > 0"
  proof -
    from that have "of_int \<lfloor>x\<rfloor> < x" by simp
    with assms(2) have "real_of_int \<lfloor>x\<rfloor> < of_int b" by linarith
    then show ?thesis by simp
  qed
  with f c show ?thesis by (auto simp: redondeo_par_def Let_def)
qed

text \<open>The same for a magnitude below \<open>2^53\<close>, with the unit in the last place \<open>1 / 2^j\<close>.\<close>

lemma redondear_binade:
  assumes a1: "2 ^ 52 \<le> \<bar>x\<bar> * 2 ^ j" and a2: "\<bar>x\<bar> * 2 ^ j < 2 ^ 53" and j: "j \<le> 1074"
  shows "redondear x = Fin (real_of_int (redondeo_par (x * 2 ^ j)) / 2 ^ j)"
proof -
  define k where "k = 1074 - j"
  have p: "(2::real) ^ 1074 = 2 ^ j * 2 ^ k"
    using j by (simp add: k_def del: power_numeral flip: power_add)
  have pk: "(0::real) < 2 ^ k" by simp
  have g1: "u * (a * b) / b = u * a" and g2: "u * b / (a * b) = u / a" if "b \<noteq> 0"
    for u a b :: real
    using that by simp_all
  have "(2::real) ^ 52 * 2 ^ k \<le> \<bar>x\<bar> * 2 ^ j * 2 ^ k"
    using a1 pk by (intro mult_right_mono) simp_all
  then have b1: "2 ^ (52 + k) \<le> \<bar>x\<bar> * 2 ^ 1074"
    unfolding p by (simp only: power_add mult.assoc)
  have "\<bar>x\<bar> * 2 ^ j * 2 ^ k < (2::real) ^ 53 * 2 ^ k"
    using a2 pk by (intro mult_strict_right_mono) simp_all
  then have b2: "\<bar>x\<bar> * 2 ^ 1074 < 2 ^ (53 + k)"
    unfolding p by (simp only: power_add mult.assoc)
  have q: "x * 2 ^ 1074 / 2 ^ k = x * 2 ^ j"
    unfolding p by (rule g1) simp
  define m where "m = redondeo_par (x * 2 ^ j)"
  have y: "real_of_int m * 2 ^ k / 2 ^ 1074 = real_of_int m / 2 ^ j"
    unfolding p by (rule g2) simp
  have "\<bar>x * 2 ^ j\<bar> < 2 ^ 53" using a2 by (simp add: abs_mult del: power_numeral)
  then have "real_of_int (- (2 ^ 53)) \<le> x * 2 ^ j" and "x * 2 ^ j \<le> real_of_int (2 ^ 53)"
    by (simp_all del: power_numeral)
  from redondeo_par_cotas [OF this] have "- (2 ^ 53) \<le> m" and "m \<le> 2 ^ 53"
    by (simp_all add: m_def del: power_numeral)
  then have "\<bar>m\<bar> \<le> 2 ^ 53" by linarith
  then have "\<bar>real_of_int m\<bar> \<le> 2 ^ 53"
    by (metis of_int_abs of_int_le_numeral_power_cancel_iff)
  moreover have "\<bar>real_of_int m / 2 ^ j\<bar> \<le> \<bar>real_of_int m\<bar>"
  proof -
    have "(1::real) \<le> 2 ^ j" by (rule one_le_power) simp
    then have "\<bar>real_of_int m\<bar> / 2 ^ j \<le> \<bar>real_of_int m\<bar> / 1"
      by (intro divide_left_mono) simp_all
    then show ?thesis by simp
  qed
  moreover have "(2::real) ^ 53 < 2 ^ 1024" by (rule power_strict_increasing) simp_all
  ultimately have l: "\<not> 2 ^ 1024 \<le> \<bar>real_of_int m / 2 ^ j\<bar>" by linarith
  show ?thesis
    unfolding redondear_normal [OF b1 b2] q m_def [symmetric] y using l by (simp only: if_False)
qed

text \<open>The mean of 1, 1, 2 is not a float: it rounds to 1.3333333333333333.\<close>

lemma redondear_cuatro_tercios: "redondear (4 / 3) = Fin (6004799503160661 / 2 ^ 52)"
  by (subst redondear_binade [of _ 52]) (simp_all add: redondeo_par_def)

subsection \<open>The mean\<close>

lemma fadd_no_finito: "\<not> es_finito a \<Longrightarrow> \<not> es_finito (fadd a x)"
  by (cases a; cases x) simp_all

lemma fadd_Fin_no_finito: "\<not> es_finito x \<Longrightarrow> fadd (Fin a) x = x"
  by (cases x) simp_all

lemma foldl_fadd_no_finitos:
  "\<not> es_finito a \<Longrightarrow> \<forall>x\<in>set xs. \<not> es_finito x \<Longrightarrow>
     foldl fadd a xs =
       (if NaN \<in> set (a # xs) \<or> (PInf \<in> set (a # xs) \<and> NInf \<in> set (a # xs)) then NaN
        else a)"
proof (induction xs arbitrary: a)
  case Nil
  then show ?case by (cases a) simp_all
next
  case (Cons x xs)
  from Cons.prems have nf: "\<not> es_finito (fadd a x)" by (simp add: fadd_no_finito)
  from Cons.prems have rest: "\<forall>y\<in>set xs. \<not> es_finito y" by simp
  note ih = Cons.IH [OF nf rest]
  from Cons.prems have "\<not> es_finito x" by simp
  with Cons.prems(1) ih show ?case by (cases a; cases x) auto
qed

lemma fdiv_len_ok: "0 < n \<Longrightarrow> \<exists>m. fdiv_len a n = Inr m"
  by (cases a; cases n) simp_all

lemma mean_ok: "xs \<noteq> [] \<Longrightarrow> \<exists>m. mean xs = Inr m"
  by (simp add: mean_def Let_def fdiv_len_ok)

lemma promedio_ok: "\<exists>p. promedio s = Inr p"
  by (simp add: promedio_def mean_ok)

lemma en_alerta_ok: "\<exists>b. en_alerta s = Inr b"
  using promedio_ok [of s] by (auto simp: en_alerta_def split: variante.splits)

lemma mean_finitos:
  assumes "xs \<noteq> []" and "\<forall>x\<in>set xs. es_finito x"
  shows "mean xs = Inr (redondear (sum_list (map valor_real xs) / real (length xs)))"
proof -
  from assms(2) have "filter (\<lambda>x. \<not> es_finito x) xs = []" by (simp add: filter_empty_conv)
  with assms(1) show ?thesis by (simp add: mean_def)
qed

text \<open>
  The floats 0.1, 0.2, 0.3: their mean is the float 0.2, where adding them as floats and
  dividing by 3 would give 0.20000000000000004.
\<close>

lemma mean_decimales:
  "mean [Fin (3602879701896397 / 2 ^ 55), Fin (3602879701896397 / 2 ^ 54),
         Fin (5404319552844595 / 2 ^ 54)] = Inr (Fin (3602879701896397 / 2 ^ 54))"
  by (simp add: mean_def, subst redondear_binade [of _ 55]) (simp_all add: redondeo_par_def)

lemma mean_no_finitos:
  assumes "\<exists>x\<in>set xs. \<not> es_finito x"
  shows "mean xs =
           Inr (if NaN \<in> set xs \<or> (PInf \<in> set xs \<and> NInf \<in> set xs) then NaN
                else if PInf \<in> set xs then PInf else NInf)"
proof -
  define nf where "nf = filter (\<lambda>x. \<not> es_finito x) xs"
  from assms have ne: "nf \<noteq> []" by (auto simp: nf_def filter_empty_conv)
  then obtain y ys where nf: "nf = y # ys" by (cases nf) simp_all
  have todos: "\<forall>x\<in>set nf. \<not> es_finito x" by (simp add: nf_def)
  with nf have y: "\<not> es_finito y" and ys: "\<forall>x\<in>set ys. \<not> es_finito x" by simp_all
  have mem: "v \<in> set nf \<longleftrightarrow> v \<in> set xs" if "\<not> es_finito v" for v
    using that by (simp add: nf_def)
  have "foldl fadd (Fin 0) nf = foldl fadd y ys" by (simp add: nf fadd_Fin_no_finito y)
  also have "\<dots> = (if NaN \<in> set nf \<or> (PInf \<in> set nf \<and> NInf \<in> set nf) then NaN else y)"
    unfolding nf by (rule foldl_fadd_no_finitos [OF y ys])
  also have "\<dots> = (if NaN \<in> set xs \<or> (PInf \<in> set xs \<and> NInf \<in> set xs) then NaN
                    else if PInf \<in> set xs then PInf else NInf)"
  proof -
    have "y \<in> set nf" by (simp add: nf)
    with y mem [of NaN] mem [of PInf] mem [of NInf] show ?thesis
      by (cases y) auto
  qed
  finally have total: "foldl fadd (Fin 0) nf =
      (if NaN \<in> set xs \<or> (PInf \<in> set xs \<and> NInf \<in> set xs) then NaN
       else if PInf \<in> set xs then PInf else NInf)" .
  from assms obtain n where n: "length xs = Suc n" by (cases xs) auto
  have "mean xs = fdiv_len (foldl fadd (Fin 0) nf) (length xs)"
    using ne n by (simp add: mean_def nf_def)
  then show ?thesis unfolding total n by simp
qed

subsection \<open>Reading: the sliding window\<close>

lemma pop0_snoc: "pop0 (b @ [v]) = Inr (hd (b @ [v]), tl (b @ [v]))"
  by (cases b) simp_all

lemma leer_eq:
  "leer valor s =
     Inr (s\<lparr>buffer := (if int (length (buffer s)) + 1 > ventana s
                        then tl (buffer s @ [fadd valor (calibracion s)])
                        else buffer s @ [fadd valor (calibracion s)])\<rparr>)"
  by (simp add: leer_def Let_def pop0_snoc)


lemma ultimos_app: "ultimos n (ultimos n xs @ ys) = ultimos n (xs @ ys)"
proof (cases "length xs \<le> n")
  case True
  then show ?thesis by (simp add: ultimos_def)
next
  case False
  then have "length ys + (length xs - n) = length xs + length ys - n" by arith
  with False show ?thesis by (simp add: ultimos_def)
qed

lemma leer_ultimos:
  assumes "0 < ventana s" "int (length (buffer s)) \<le> ventana s"
  shows "leer valor s =
           Inr (s\<lparr>buffer := ultimos (nat (ventana s)) (buffer s @ [fadd valor (calibracion s)])\<rparr>)"
proof (cases "int (length (buffer s)) + 1 > ventana s")
  case True
  with assms have n: "length (buffer s) = nat (ventana s)" by linarith
  from assms have "Suc 0 - nat (ventana s) = 0" by simp
  moreover from n assms have "buffer s \<noteq> []" by auto
  ultimately have "ultimos (nat (ventana s)) (buffer s @ [fadd valor (calibracion s)])
               = tl (buffer s @ [fadd valor (calibracion s)])"
    using n by (simp add: ultimos_def drop_Suc)
  with True show ?thesis by (simp add: leer_eq)
next
  case False
  then have "length (buffer s) + 1 \<le> nat (ventana s)" by linarith
  then have "ultimos (nat (ventana s)) (buffer s @ [fadd valor (calibracion s)])
               = buffer s @ [fadd valor (calibracion s)]"
    by (simp add: ultimos_def)
  with False show ?thesis by (simp add: leer_eq)
qed

lemma leer_todos_ultimos:
  "0 < ventana s \<Longrightarrow> int (length (buffer s)) \<le> ventana s \<Longrightarrow>
     leer_todos valores s =
       Inr (s\<lparr>buffer := ultimos (nat (ventana s))
                            (buffer s @ map (\<lambda>r. fadd r (calibracion s)) valores)\<rparr>)"
proof (induction valores arbitrary: s)
  case Nil
  then show ?case by (simp add: ultimos_def)
next
  case (Cons v vs)
  let ?s1 = "s\<lparr>buffer := ultimos (nat (ventana s)) (buffer s @ [fadd v (calibracion s)])\<rparr>"
  have l: "leer v s = Inr ?s1" using Cons.prems by (rule leer_ultimos)
  have "0 < ventana ?s1" using Cons.prems by simp
  moreover have "int (length (buffer ?s1)) \<le> ventana ?s1"
    using Cons.prems by (simp add: ultimos_def)
  ultimately have "leer_todos vs ?s1 =
      Inr (?s1\<lparr>buffer := ultimos (nat (ventana ?s1))
                            (buffer ?s1 @ map (\<lambda>r. fadd r (calibracion ?s1)) vs)\<rparr>)"
    by (rule Cons.IH)
  then show ?case using l by (simp add: ultimos_app)
qed

lemma leer_ventana_no_positiva:
  "ventana s \<le> 0 \<Longrightarrow> buffer s = [] \<Longrightarrow> leer valor s = Inr s"
  by (simp add: leer_eq)

lemma leer_todos_ventana_no_positiva:
  "ventana s \<le> 0 \<Longrightarrow> buffer s = [] \<Longrightarrow> leer_todos valores s = Inr s"
  by (induction valores) (simp_all add: leer_ventana_no_positiva)

subsection \<open>The evaluation cycle\<close>

lemma Alerta_call_args: "Alerta_call (a # as) = Inl TypeError"
  by (simp add: Alerta_call_def)

lemma evaluar_sensor_en_alerta:
  "en_alerta s = Inr True \<Longrightarrow> evaluar_sensor ahora s w = (Some TypeError, w)"
  using promedio_ok [of s] by (auto simp: evaluar_sensor_def Alerta_call_args Let_def)

lemma evaluar_sensor_sin_alerta:
  "en_alerta s = Inr False \<Longrightarrow> evaluar_sensor ahora s w = (None, w)"
  by (simp add: evaluar_sensor_def)

lemma evaluar_bucle_sin_alerta:
  "\<forall>s\<in>set ss. en_alerta s = Inr False \<Longrightarrow> evaluar_bucle ahora ss w = (None, w)"
  by (induction ss) (simp_all add: evaluar_sensor_sin_alerta)

lemma evaluar_bucle_en_alerta:
  "\<exists>s\<in>set ss. en_alerta s = Inr True \<Longrightarrow> evaluar_bucle ahora ss w = (Some TypeError, w)"
proof (induction ss)
  case Nil
  then show ?case by simp
next
  case (Cons s ss)
  from en_alerta_ok [of s] obtain b where b: "en_alerta s = Inr b" ..
  show ?case
  proof (cases b)
    case True
    with b show ?thesis by (simp add: evaluar_sensor_en_alerta)
  next
    case False
    with b Cons show ?thesis by (auto simp: evaluar_sensor_sin_alerta)
  qed
qed

lemma evaluar_bucle_estado: "snd (evaluar_bucle ahora ss w) = w"
proof (induction ss)
  case Nil
  show ?case by simp
next
  case (Cons s ss)
  from en_alerta_ok [of s] obtain b where b: "en_alerta s = Inr b" ..
  show ?case
  proof (cases b)
    case True
    with b show ?thesis by (simp add: evaluar_sensor_en_alerta)
  next
    case False
    with b Cons show ?thesis by (simp add: evaluar_sensor_sin_alerta)
  qed
qed

subsection \<open>Float comparisons\<close>

lemma fle_refl: "\<not> es_nan a \<Longrightarrow> fle a a"
  by (cases a) simp_all

lemma fle_total: "\<not> es_nan a \<Longrightarrow> \<not> es_nan b \<Longrightarrow> (\<not> fle a b) = flt b a"
  by (cases a; cases b) auto

lemma fle_no_nan: "fle a b \<Longrightarrow> \<not> es_nan a \<and> \<not> es_nan b"
  by (cases a; cases b) simp_all

subsection \<open>The evaluation cycle and the sensors\<close>

lemma evaluar_sensor_sensores:
  "sensores (gestor (snd (evaluar_sensor ahora s w))) = sensores (gestor w)"
  by (simp add: evaluar_sensor_def Let_def split: sum.splits bool.splits)

lemma evaluar_bucle_sensores:
  "sensores (gestor (snd (evaluar_bucle ahora ss w))) = sensores (gestor w)"
proof (induction ss arbitrary: w)
  case Nil
  show ?case by simp
next
  case (Cons s ss)
  obtain r w' where e: "evaluar_sensor ahora s w = (r, w')" by (cases "evaluar_sensor ahora s w")
  then have "sensores (gestor w') = sensores (gestor w)"
    using evaluar_sensor_sensores [of ahora s w] by simp
  with e Cons.IH [of w'] show ?case by (cases r) simp_all
qed

lemma ciclos_sin_alerta:
  "\<forall>s\<in>set (sensores (gestor w)). en_alerta s = Inr False \<Longrightarrow>
     ciclos ts w = (replicate (length ts) None, w)"
  by (induction ts) (simp_all add: evaluar_y_notificar_def evaluar_bucle_sin_alerta)

section \<open>The claims\<close>

text \<open>
  C9: \<open>promedio\<close> never raises. It returns exactly 0.0 on an empty buffer. On a buffer
  of finite readings that is not empty it returns the arithmetic mean of the contents,
  their exact sum divided by their count, as the nearest float. When a reading is not
  finite, it returns NaN if a reading is NaN or both infinities occur, and otherwise the
  infinity that occurs.
\<close>

theorem promedio_media:
  "(buffer s = [] \<longrightarrow> promedio s = Inr (Fin 0)) \<and>
   (\<exists>m. promedio s = Inr m) \<and>
   (buffer s \<noteq> [] \<and> (\<forall>x\<in>set (buffer s). es_finito x) \<longrightarrow>
      promedio s =
        Inr (redondear (sum_list (map valor_real (buffer s)) / real (length (buffer s))))) \<and>
   ((\<exists>x\<in>set (buffer s). \<not> es_finito x) \<longrightarrow>
      promedio s =
        Inr (if NaN \<in> set (buffer s) \<or> (PInf \<in> set (buffer s) \<and> NInf \<in> set (buffer s))
             then NaN
             else if PInf \<in> set (buffer s) then PInf else NInf))"
proof (cases "buffer s = []")
  case True
  then show ?thesis by (simp add: promedio_def)
next
  case False
  then have "promedio s = mean (buffer s)" by (simp add: promedio_def)
  with False mean_ok [of "buffer s"] mean_finitos [of "buffer s"]
    mean_no_finitos [of "buffer s"]
  show ?thesis by simp
qed

text \<open>
  An empty buffer; the readings 85, 86, 90, whose mean 87 is a float; the readings
  1, 1, 2, whose mean 4/3 is not, and is returned as 1.3333333333333333; and a buffer
  holding an infinity.
\<close>

theorem promedio_media_witness:
  "promedio sensor_T1 = Inr (Fin 0) \<and>
   promedio (sensor_T1\<lparr>buffer := [Fin 85, Fin 86, Fin 90]\<rparr>) = Inr (Fin 87) \<and>
   promedio (sensor_T1\<lparr>buffer := [Fin 1, Fin 1, Fin 2]\<rparr>)
     = Inr (Fin (6004799503160661 / 2 ^ 52)) \<and>
   promedio (sensor_T1\<lparr>buffer := [Fin 1, PInf]\<rparr>) = Inr PInf"
  using promedio_media [of sensor_T1]
    promedio_media [of "sensor_T1\<lparr>buffer := [Fin 85, Fin 86, Fin 90]\<rparr>"]
    promedio_media [of "sensor_T1\<lparr>buffer := [Fin 1, Fin 1, Fin 2]\<rparr>"]
    promedio_media [of "sensor_T1\<lparr>buffer := [Fin 1, PInf]\<rparr>"]
  by (simp add: sensor_T1_def redondear_cuatro_tercios)

text \<open>
  C3: a sensor with a positive window \<open>W\<close> and calibration offset \<open>c\<close> that starts
  with an empty buffer and is fed \<open>N\<close> raw readings by \<open>leer\<close> ends with a buffer of
  length \<open>min N W\<close> holding exactly the last \<open>min N W\<close> values \<open>raw + c\<close>, oldest
  first; after every prefix of the readings the buffer is no longer than \<open>W\<close>.
\<close>

theorem leer_todos_ventana:
  assumes "0 < ventana s" and "buffer s = []"
  shows "\<exists>s'. leer_todos valores s = Inr s' \<and>
           length (buffer s') = min (length valores) (nat (ventana s)) \<and>
           buffer s' = ultimos (min (length valores) (nat (ventana s)))
                         (map (\<lambda>r. fadd r (calibracion s)) valores) \<and>
           (\<forall>k\<le>length valores. \<exists>sk. leer_todos (take k valores) s = Inr sk \<and>
                int (length (buffer sk)) \<le> ventana s)"
proof -
  have todo: "leer_todos vs s =
      Inr (s\<lparr>buffer := ultimos (nat (ventana s)) (map (\<lambda>r. fadd r (calibracion s)) vs)\<rparr>)"
    for vs
    using assms leer_todos_ultimos [of s vs] by simp
  have "ultimos (nat (ventana s)) (map (\<lambda>r. fadd r (calibracion s)) valores)
          = ultimos (min (length valores) (nat (ventana s)))
              (map (\<lambda>r. fadd r (calibracion s)) valores)"
  proof -
    have "length valores - nat (ventana s)
            = length valores - min (length valores) (nat (ventana s))"
      by arith
    then show ?thesis by (simp add: ultimos_def)
  qed
  moreover have "length (ultimos (nat (ventana s)) (map (\<lambda>r. fadd r (calibracion s)) valores))
          = min (length valores) (nat (ventana s))"
    by (simp add: ultimos_def)
  moreover have "int (length (ultimos (nat (ventana s))
                    (map (\<lambda>r. fadd r (calibracion s)) (take k valores)))) \<le> ventana s" for k
    using assms by (simp add: ultimos_def)
  ultimately show ?thesis by (simp add: todo)
qed


theorem leer_todos_ventana_witness:
  "\<exists>s'. leer_todos [Fin 10, Fin 20, Fin 30] sensor_W2 = Inr s' \<and>
         length (buffer s') = 2 \<and> buffer s' = [Fin 25, Fin 35]"
proof -
  have "0 < ventana sensor_W2" and "buffer sensor_W2 = []"
    by (simp_all add: sensor_W2_def)
  from leer_todos_ventana [OF this, of "[Fin 10, Fin 20, Fin 30]"]
  obtain s' where r: "leer_todos [Fin 10, Fin 20, Fin 30] sensor_W2 = Inr s'"
    and "length (buffer s') = min (length [Fin 10, Fin 20, Fin 30]) (nat (ventana sensor_W2))"
    and "buffer s' = ultimos (min (length [Fin 10, Fin 20, Fin 30]) (nat (ventana sensor_W2)))
                       (map (\<lambda>r. fadd r (calibracion sensor_W2)) [Fin 10, Fin 20, Fin 30])"
    by blast
  then have "length (buffer s') = 2 \<and> buffer s' = [Fin 25, Fin 35]"
    by (simp add: sensor_W2_def ultimos_def)
  with r show ?thesis by blast
qed

text \<open>
  C10: on a sensor whose window is not positive and whose buffer is empty, every \<open>leer\<close>
  call leaves the buffer empty (the appended reading is evicted at once), so \<open>promedio\<close>
  is 0.0 after it, and so after any sequence of calls; \<open>evaluar_y_notificar\<close> does not
  touch the sensors.
\<close>

theorem ventana_no_positiva:
  assumes "ventana s \<le> 0" and "buffer s = []"
  shows "(\<exists>s'. leer valor s = Inr s' \<and> buffer s' = [] \<and> ventana s' = ventana s \<and>
               promedio s' = Inr (Fin 0)) \<and>
         (\<exists>s'. leer_todos valores s = Inr s' \<and> buffer s' = [] \<and>
               promedio s' = Inr (Fin 0)) \<and>
         sensores (gestor (snd (evaluar_y_notificar ahora w))) = sensores (gestor w)"
  using assms
  by (simp add: leer_ventana_no_positiva leer_todos_ventana_no_positiva promedio_def
      evaluar_y_notificar_def evaluar_bucle_sensores)

theorem ventana_no_positiva_witness:
  "leer (Fin 7) (sensor_T1\<lparr>ventana := 0\<rparr>) = Inr (sensor_T1\<lparr>ventana := 0\<rparr>) \<and>
   promedio (sensor_T1\<lparr>ventana := 0\<rparr>) = Inr (Fin 0) \<and>
   leer_todos [Fin 7, Fin 8] (sensor_T1\<lparr>ventana := - 3\<rparr>) = Inr (sensor_T1\<lparr>ventana := - 3\<rparr>)"
  using ventana_no_positiva [of "sensor_T1\<lparr>ventana := 0\<rparr>" "Fin 7" "[]" 0 mundo_T1]
    ventana_no_positiva [of "sensor_T1\<lparr>ventana := - 3\<rparr>" "Fin 7" "[Fin 7, Fin 8]" 0 mundo_T1]
  by (simp add: sensor_T1_def leer_def promedio_def)

text \<open>
  C4: on a temperature sensor \<open>en_alerta\<close> returns, without raising, whether the current
  average is greater than or equal to the threshold \<open>umbral\<close>; in particular an average
  equal to the threshold triggers the alert.
\<close>

theorem temperatura_en_alerta:
  assumes "variante s = SensorTemperatura u"
  shows "\<exists>p. promedio s = Inr p \<and> en_alerta s = Inr (fge p u) \<and>
             (p = u \<and> \<not> es_nan u \<longrightarrow> en_alerta s = Inr True)"
proof -
  from promedio_ok [of s] obtain p where p: "promedio s = Inr p" ..
  with assms have "en_alerta s = Inr (fge p u)" by (simp add: en_alerta_def)
  with p show ?thesis by (auto simp: fge_def fle_refl)
qed

theorem temperatura_en_alerta_witness:
  "en_alerta (sensor_T1\<lparr>buffer := [Fin 80, Fin 80]\<rparr>) = Inr True \<and>
   en_alerta (sensor_T1\<lparr>buffer := [Fin 79, Fin 80]\<rparr>) = Inr False \<and>
   en_alerta (sensor_T1\<lparr>buffer := [Fin 79, Fin 90]\<rparr>) = Inr True"
  using temperatura_en_alerta [of "sensor_T1\<lparr>buffer := [Fin 80, Fin 80]\<rparr>" "Fin 80"]
    temperatura_en_alerta [of "sensor_T1\<lparr>buffer := [Fin 79, Fin 80]\<rparr>" "Fin 80"]
    temperatura_en_alerta [of "sensor_T1\<lparr>buffer := [Fin 79, Fin 90]\<rparr>" "Fin 80"]
  by (simp add: sensor_T1_def promedio_def mean_def fge_def)

text \<open>
  C5: on a pressure sensor \<open>en_alerta\<close> returns, without raising, the negation of
  \<open>presion_min <= promedio <= presion_max\<close>. When neither the average nor a bound is
  NaN that is: the average is strictly below \<open>presion_min\<close> or strictly above
  \<open>presion_max\<close>; with \<open>presion_min <= presion_max\<close>, an average equal to either
  bound does not alert. A NaN average alerts, though it is neither below the minimum nor
  above the maximum.
\<close>

theorem presion_en_alerta:
  assumes "variante s = SensorPresion pmax pmin"
  shows "\<exists>p. promedio s = Inr p \<and>
             en_alerta s = Inr (\<not> (fle pmin p \<and> fle p pmax)) \<and>
             (\<not> es_nan p \<and> \<not> es_nan pmin \<and> \<not> es_nan pmax \<longrightarrow>
                en_alerta s = Inr (flt p pmin \<or> fgt p pmax)) \<and>
             (fle pmin pmax \<and> (p = pmin \<or> p = pmax) \<longrightarrow> en_alerta s = Inr False) \<and>
             (es_nan p \<longrightarrow> en_alerta s = Inr True)"
proof -
  from promedio_ok [of s] obtain p where p: "promedio s = Inr p" ..
  with assms have e: "en_alerta s = Inr (\<not> (fle pmin p \<and> fle p pmax))"
    by (simp add: en_alerta_def)
  have "(\<not> (fle pmin p \<and> fle p pmax)) = (flt p pmin \<or> fgt p pmax)"
    if "\<not> es_nan p" "\<not> es_nan pmin" "\<not> es_nan pmax"
    using that fle_total [of pmin p] fle_total [of p pmax] by (auto simp: fgt_def)
  moreover have "fle pmin p \<and> fle p pmax" if "fle pmin pmax" "p = pmin \<or> p = pmax"
    using that fle_no_nan [of pmin pmax] by (auto simp: fle_refl)
  moreover have "\<not> fle pmin p" if "es_nan p"
    using that fle_no_nan [of pmin p] by auto
  ultimately show ?thesis using p e by auto
qed

text \<open>The four cases at the default bounds 1 and 100: on a bound, above, below.\<close>

theorem presion_en_alerta_witness:
  "en_alerta (sensor_P1\<lparr>buffer := [Fin 1]\<rparr>) = Inr False \<and>
   en_alerta (sensor_P1\<lparr>buffer := [Fin 100]\<rparr>) = Inr False \<and>
   en_alerta (sensor_P1\<lparr>buffer := [Fin 150]\<rparr>) = Inr True \<and>
   en_alerta (sensor_P1\<lparr>buffer := [Fin (1 / 2)]\<rparr>) = Inr True"
  using presion_en_alerta [of "sensor_P1\<lparr>buffer := [Fin 1]\<rparr>" "Fin 100" "Fin 1"]
    presion_en_alerta [of "sensor_P1\<lparr>buffer := [Fin 100]\<rparr>" "Fin 100" "Fin 1"]
    presion_en_alerta [of "sensor_P1\<lparr>buffer := [Fin 150]\<rparr>" "Fin 100" "Fin 1"]
    presion_en_alerta [of "sensor_P1\<lparr>buffer := [Fin (1 / 2)]\<rparr>" "Fin 100" "Fin 1"]
  by (simp add: sensor_P1_def promedio_def mean_def fgt_def)

text \<open>
  A pressure sensor with the default bounds that has read NaN once: the average is NaN,
  \<open>en_alerta\<close> is true, and the average is neither below \<open>presion_min\<close> nor above
  \<open>presion_max\<close>.
\<close>

theorem presion_nan_counterexample:
  "leer NaN sensor_P1 = Inr (sensor_P1\<lparr>buffer := [NaN]\<rparr>) \<and>
   promedio (sensor_P1\<lparr>buffer := [NaN]\<rparr>) = Inr NaN \<and>
   en_alerta (sensor_P1\<lparr>buffer := [NaN]\<rparr>) = Inr True \<and>
   \<not> flt NaN (presion_min (variante sensor_P1)) \<and>
   \<not> fgt NaN (presion_max (variante sensor_P1))"
  by (simp add: sensor_P1_def leer_def promedio_def mean_def en_alerta_def fgt_def)

text \<open>
  C6: on a vibration sensor \<open>en_alerta\<close> returns, without raising, whether the absolute
  value of the signed average is greater than or equal to \<open>rms_umbral\<close>; it does not
  use \<open>calcular_rms\<close>. With the readings 3, -3, 3, -3 and the threshold 2.5 the two
  disagree: \<open>en_alerta\<close> is false while \<open>calcular_rms\<close> is 3, at or above the threshold.
\<close>

theorem vibracion_en_alerta:
  "(variante s = SensorVibracion u \<longrightarrow>
      (\<exists>p. promedio s = Inr p \<and> en_alerta s = Inr (fge (fabs p) u))) \<and>
   en_alerta sensor_V1_alterno = Inr False \<and>
   calcular_rms sensor_V1_alterno = Inr (Fin 3) \<and>
   fge (Fin 3) (rms_umbral (variante sensor_V1_alterno))"
proof -
  have "\<exists>p. promedio s = Inr p \<and> en_alerta s = Inr (fge (fabs p) u)"
    if "variante s = SensorVibracion u"
    using that promedio_ok [of s] by (auto simp: en_alerta_def)
  moreover have "en_alerta sensor_V1_alterno = Inr False"
    by (simp add: sensor_V1_alterno_def sensor_V1_def en_alerta_def promedio_def mean_def fge_def)
  moreover have "calcular_rms sensor_V1_alterno = Inr (Fin 3)"
    by (simp add: sensor_V1_alterno_def sensor_V1_def calcular_rms_def suma_def)
  moreover have "fge (Fin 3) (rms_umbral (variante sensor_V1_alterno))"
    by (simp add: sensor_V1_alterno_def sensor_V1_def fge_def)
  ultimately show ?thesis by blast
qed

theorem vibracion_en_alerta_witness:
  "en_alerta (sensor_V1\<lparr>buffer := [Fin (- 5), Fin (- 5), Fin (- 5)]\<rparr>) = Inr True \<and>
   promedio (sensor_V1\<lparr>buffer := [Fin (- 5), Fin (- 5), Fin (- 5)]\<rparr>) = Inr (Fin (- 5))"
  using vibracion_en_alerta [of "sensor_V1\<lparr>buffer := [Fin (- 5), Fin (- 5), Fin (- 5)]\<rparr>" "Fin (5 / 2)"]
  by (simp add: sensor_V1_def promedio_def mean_def fge_def)

text \<open>
  C8: a sensor whose \<open>en_alerta\<close> is false adds nothing to the history and causes no
  \<open>enviar\<close> call in the loop of \<open>evaluar_y_notificar\<close>. When no sensor of the manager
  is in alert, one call, and any number of calls in succession, raise nothing and leave
  the history and the printed output unchanged.
\<close>

theorem sin_alerta_sin_efecto:
  "(en_alerta s = Inr False \<longrightarrow> evaluar_sensor ahora s w = (None, w)) \<and>
   ((\<forall>x\<in>set (sensores (gestor w)). en_alerta x = Inr False) \<longrightarrow>
      evaluar_y_notificar ahora w = (None, w) \<and>
      ciclos ts w = (replicate (length ts) None, w))"
  by (simp add: evaluar_sensor_sin_alerta evaluar_y_notificar_def evaluar_bucle_sin_alerta
      ciclos_sin_alerta)

theorem sin_alerta_sin_efecto_witness:
  "ciclos [1, 2, 3] mundo_T1_frio = ([None, None, None], mundo_T1_frio) \<and>
   historial (gestor mundo_T1_frio) = [] \<and> salida mundo_T1_frio = []"
proof -
  have "\<forall>x\<in>set (sensores (gestor mundo_T1_frio)). en_alerta x = Inr False"
    by (simp add: mundo_T1_frio_def mundo_de_def sensor_T1_def sensor_P1_def en_alerta_def
        promedio_def mean_def fge_def)
  with sin_alerta_sin_efecto [of "sensor_T1" 0 mundo_T1_frio "[1, 2, 3]"]
  have "ciclos [1, 2, 3] mundo_T1_frio = (replicate (length [1, 2, 3 :: nat]) None, mundo_T1_frio)"
    by blast
  then show ?thesis by (simp add: mundo_T1_frio_def mundo_de_def eval_nat_numeral)
qed

text \<open>
  C1: the manager holds the one temperature sensor \<open>T1\<close> with readings 85, 85, 85
  (average 85, threshold 80) and two notifiers. The message built for the sensor is
  \<open>ALERTA: Sensor T1 en umbral (avg=85.00)\<close>, but one call of \<open>evaluar_y_notificar\<close>
  raises TypeError at the construction of the \<open>Alerta\<close>: the history stays empty and
  nothing is sent.
\<close>

theorem evaluar_T1_TypeError:
  "leer_todos [Fin 85, Fin 85, Fin 85] sensor_T1 = Inr (sensor_T1\<lparr>buffer := [Fin 85, Fin 85, Fin 85]\<rparr>) \<and>
   promedio (sensor_T1\<lparr>buffer := [Fin 85, Fin 85, Fin 85]\<rparr>) = Inr (Fin 85) \<and>
   sensores (gestor mundo_T1) = [sensor_T1\<lparr>buffer := [Fin 85, Fin 85, Fin 85]\<rparr>] \<and>
   length (notificadores (gestor mundo_T1)) = 2 \<and>
   mensaje_alerta (sensor_T1\<lparr>buffer := [Fin 85, Fin 85, Fin 85]\<rparr>) (Fin 85)
     = ''ALERTA: Sensor T1 en umbral (avg=85.00)'' \<and>
   evaluar_y_notificar ahora mundo_T1 = (Some TypeError, mundo_T1) \<and>
   historial (gestor mundo_T1) = [] \<and> salida mundo_T1 = []"
proof -
  have a: "en_alerta (sensor_T1\<lparr>buffer := [Fin 85, Fin 85, Fin 85]\<rparr>) = Inr True"
    by (simp add: sensor_T1_def en_alerta_def promedio_def mean_def fge_def)
  have "evaluar_y_notificar ahora mundo_T1 = (Some TypeError, mundo_T1)"
    unfolding evaluar_y_notificar_def
    by (rule evaluar_bucle_en_alerta) (simp add: mundo_T1_def mundo_de_def a)
  moreover have "leer_todos [Fin 85, Fin 85, Fin 85] sensor_T1
                   = Inr (sensor_T1\<lparr>buffer := [Fin 85, Fin 85, Fin 85]\<rparr>)"
    by (simp add: sensor_T1_def leer_def)
  moreover have "promedio (sensor_T1\<lparr>buffer := [Fin 85, Fin 85, Fin 85]\<rparr>) = Inr (Fin 85)"
    by (simp add: sensor_T1_def promedio_def mean_def)
  moreover have "mensaje_alerta (sensor_T1\<lparr>buffer := [Fin 85, Fin 85, Fin 85]\<rparr>) (Fin 85)
                   = ''ALERTA: Sensor T1 en umbral (avg=85.00)''"
    by (simp add: mensaje_alerta_def sensor_T1_def redondeo_par_def digito_def)
  ultimately show ?thesis by (simp add: mundo_T1_def mundo_de_def)
qed

text \<open>
  C2: \<open>leer\<close>, \<open>promedio\<close> and \<open>en_alerta\<close> never raise. \<open>evaluar_y_notificar\<close>
  raises TypeError, leaving the state as it was, whenever a sensor of the manager is in
  alert.
\<close>

theorem evaluar_en_alerta_TypeError:
  "(\<exists>s'. leer valor s = Inr s') \<and> (\<exists>p. promedio s = Inr p) \<and> (\<exists>b. en_alerta s = Inr b) \<and>
   (s \<in> set (sensores (gestor w)) \<and> en_alerta s = Inr True \<longrightarrow>
      evaluar_y_notificar ahora w = (Some TypeError, w))"
proof -
  have "evaluar_y_notificar ahora w = (Some TypeError, w)"
    if "s \<in> set (sensores (gestor w))" "en_alerta s = Inr True"
    unfolding evaluar_y_notificar_def using that by (intro evaluar_bucle_en_alerta) blast
  then show ?thesis using promedio_ok [of s] en_alerta_ok [of s] by (simp add: leer_eq)
qed

theorem evaluar_en_alerta_TypeError_witness:
  "en_alerta (sensor_P1\<lparr>buffer := [Fin 150]\<rparr>) = Inr True \<and>
   evaluar_y_notificar 0 mundo_P1 = (Some TypeError, mundo_P1)"
proof -
  have a: "en_alerta (sensor_P1\<lparr>buffer := [Fin 150]\<rparr>) = Inr True"
    by (simp add: sensor_P1_def en_alerta_def promedio_def mean_def)
  moreover have "sensor_P1\<lparr>buffer := [Fin 150]\<rparr> \<in> set (sensores (gestor mundo_P1))"
    by (simp add: mundo_P1_def mundo_de_def)
  ultimately show ?thesis
    using evaluar_en_alerta_TypeError [of "Fin 0" "sensor_P1\<lparr>buffer := [Fin 150]\<rparr>" mundo_P1 0]
    by blast
qed

text \<open>
  C7: with a sensor of the manager in alert, two calls of \<open>evaluar_y_notificar\<close> in
  succession both raise TypeError and leave the state as it was: no \<open>Alerta\<close> is added
  to the history and nothing is sent.
\<close>

theorem dos_ciclos_TypeError:
  assumes "\<exists>s\<in>set (sensores (gestor w)). en_alerta s = Inr True"
  shows "ciclos [t1, t2] w = ([Some TypeError, Some TypeError], w)"
  using assms by (simp add: evaluar_y_notificar_def evaluar_bucle_en_alerta)

theorem dos_ciclos_TypeError_witness:
  "ciclos [1, 2] mundo_T1 = ([Some TypeError, Some TypeError], mundo_T1) \<and>
   historial (gestor mundo_T1) = [] \<and> salida mundo_T1 = []"
proof -
  have "\<exists>s\<in>set (sensores (gestor mundo_T1)). en_alerta s = Inr True"
    by (simp add: mundo_T1_def mundo_de_def sensor_T1_def en_alerta_def promedio_def mean_def
        fge_def)
  from dos_ciclos_TypeError [OF this, of 1 2] show ?thesis
    by (simp add: mundo_T1_def mundo_de_def)
qed

end
